theory Spec2Isabelle
  imports Main "HOL-Library.Word"
begin

unbundle bit_operations_syntax

section \<open>mutfs: a loopback filesystem that refuses destructive actions\<close>

text \<open>
  The development embeds the grace-period revision of the program (the \<open>MutNode\<close> handlers
  with the globals \<open>Log\<close> and \<open>Grace\<close>, the function \<open>btime\<close> and \<open>main\<close>) and, for comparison,
  the \<open>deny\<close> of the earlier logging-only revision kept in \<open>main.go\<close>.

  The collaborators the program does not define (the go-fuse loopback node, the
  \<open>statx\<close> system call, \<open>os.Stat\<close>, \<open>time.ParseDuration\<close>, \<open>fs.Mount\<close>) are parameters of the
  model; the small parts of the Go standard library whose result the program computes with
  (\<open>time.Unix\<close>, \<open>Time.Sub\<close>, \<open>filepath.Join\<close>, \<open>strings.Split\<close>) are written out from
  their documentation, and so is what the Linux kernel does to a request before go-fuse
  calls a handler (the \<open>ro\<close> mount option, the flags of an \<open>OPEN\<close> request, the choice
  between \<open>CREATE\<close> and \<open>OPEN\<close>).
\<close>

subsection \<open>Errno values and open flags (package syscall, Linux)\<close>

type_synonym Errno = nat

definition OK :: Errno where
  "OK = 0"

definition ENOENT :: Errno where
  "ENOENT = 2"

definition EACCES :: Errno where
  "EACCES = 13"

definition EEXIST :: Errno where
  "EEXIST = 17"


definition ENOTEMPTY :: Errno where
  "ENOTEMPTY = 39"

definition O_RDONLY :: "32 word" where
  "O_RDONLY = 0x0"

definition O_WRONLY :: "32 word" where
  "O_WRONLY = 0x1"

definition O_RDWR :: "32 word" where
  "O_RDWR = 0x2"

definition O_CREAT :: "32 word" where
  "O_CREAT = 0x40"

definition O_EXCL :: "32 word" where
  "O_EXCL = 0x80"

definition O_NOCTTY :: "32 word" where
  "O_NOCTTY = 0x100"

definition O_TRUNC :: "32 word" where
  "O_TRUNC = 0x200"

definition O_APPEND :: "32 word" where
  "O_APPEND = 0x400"

subsection \<open>Package time: instants and durations in nanoseconds\<close>

text \<open>
  A \<open>Duration\<close> is an int64 count of nanoseconds. An instant is kept as its count of
  nanoseconds since the Unix epoch. \<open>time.Unix\<close> carries whole seconds of \<open>nsec\<close> over
  into \<open>sec\<close> and keeps the seconds as an int64 counted from year 1, so the sum with
  \<open>unixToInternal\<close> wraps around. \<open>Time.Sub\<close> saturates at the smallest and the largest
  \<open>Duration\<close>; the subtraction of two durations wraps around.
\<close>

type_synonym Duration = int

type_synonym Time = int

definition minDuration :: Duration where
  "minDuration = - (2 ^ 63)"

definition maxDuration :: Duration where
  "maxDuration = 2 ^ 63 - 1"

definition wrap64 :: "int \<Rightarrow> int" where
  "wrap64 x = (x + 2 ^ 63) mod 2 ^ 64 - 2 ^ 63"

definition unixToInternal :: int where
  "unixToInternal = 62135596800"

definition time_Unix :: "int \<Rightarrow> int \<Rightarrow> Time" where
  "time_Unix sec nsec =
     (wrap64 (sec + nsec div 1000000000 + unixToInternal) - unixToInternal) * 1000000000
       + nsec mod 1000000000"

definition time_Sub :: "Time \<Rightarrow> Time \<Rightarrow> Duration" where
  "time_Sub t u =
     (let d = t - u
      in if d < minDuration then minDuration
         else if maxDuration < d then maxDuration
         else d)"

definition time_Since :: "Time \<Rightarrow> Time \<Rightarrow> Duration" where
  "time_Since now t = time_Sub now t"

definition duration_minus :: "Duration \<Rightarrow> Duration \<Rightarrow> Duration" where
  "duration_minus a b = (a - b + 2 ^ 63) mod 2 ^ 64 - 2 ^ 63"

subsection \<open>Package strings and path/filepath\<close>

fun split_sep :: "char \<Rightarrow> string \<Rightarrow> string list" where
  "split_sep c [] = [[]]"
| "split_sep c (x # xs) =
     (if x = c then [] # split_sep c xs
      else (case split_sep c xs of
              [] \<Rightarrow> [[x]]
            | y # ys \<Rightarrow> (x # y) # ys))"

definition strings_HasPrefix :: "string \<Rightarrow> string \<Rightarrow> bool" where
  "strings_HasPrefix s p = (take (length p) s = p)"

fun join_sep :: "string list \<Rightarrow> string" where
  "join_sep [] = []"
| "join_sep [x] = x"
| "join_sep (x # y # ys) = x @ ''/'' @ join_sep (y # ys)"

text \<open>
  One step of \<open>filepath.Clean\<close> over the components of a path; \<open>out\<close> holds the components
  kept so far, the last one first.
\<close>

definition clean_step :: "bool \<Rightarrow> string list \<Rightarrow> string \<Rightarrow> string list" where
  "clean_step rooted out c =
     (if c = [] \<or> c = ''.'' then out
      else if c = ''..'' then
        (case out of
           [] \<Rightarrow> if rooted then [] else [''..'']
         | d # ds \<Rightarrow> if d = ''..'' then ''..'' # out else ds)
      else c # out)"

definition filepath_Clean :: "string \<Rightarrow> string" where
  "filepath_Clean p =
     (case p of
        [] \<Rightarrow> ''.''
      | x # xs \<Rightarrow>
          (let rooted = (x = CHR ''/'');
               body = join_sep (rev (foldl (clean_step rooted) [] (split_sep CHR ''/'' p)))
           in if rooted then ''/'' @ body
              else if body = [] then ''.''
              else body))"

text \<open>\<open>filepath.Join\<close> of two elements: empty elements before the first non-empty one are skipped.\<close>

definition filepath_Join :: "string \<Rightarrow> string \<Rightarrow> string" where
  "filepath_Join a b =
     (if a \<noteq> [] then filepath_Clean (a @ ''/'' @ b)
      else if b \<noteq> [] then filepath_Clean b
      else [])"

subsection \<open>The creation-time lookup: \<open>btime\<close>\<close>

text \<open>
  \<open>unix.Statx_t\<close> with the fields that matter here. \<open>Mask\<close> tells which fields the host
  filled in; bit \<open>STATX_BTIME\<close> stands for the birth time.
\<close>

record StatxTimestamp =
  Sec :: "64 word"
  Nsec :: "32 word"

record Statx_t =
  Mask :: "32 word"
  Atime :: StatxTimestamp
  Btime :: StatxTimestamp
  Ctime :: StatxTimestamp
  Mtime :: StatxTimestamp

definition STATX_BTIME :: "32 word" where
  "STATX_BTIME = 0x800"

text \<open>
  \<open>btime\<close> takes the outcome of \<open>unix.Statx(AT_FDCWD, name, AT_SYMLINK_NOFOLLOW, STATX_ALL, &statx)\<close>
  as the function \<open>statx\<close>: \<open>Inl\<close> carries the error of the call.
\<close>

definition btime :: "(string \<Rightarrow> Errno + Statx_t) \<Rightarrow> string \<Rightarrow> Errno + Time" where
  "btime statx name =
     (case statx name of
        Inl err \<Rightarrow> Inl err
      | Inr st \<Rightarrow> Inr (time_Unix (sint (Sec (Btime st))) (uint (Nsec (Btime st)))))"

subsection \<open>Nodes, callers, the backing store and the log\<close>

type_synonym FileHandle = nat

record Node =
  RootPath :: string
  NodePath :: string

record Caller =
  Pid :: "32 word"
  Uid :: "32 word"
  Gid :: "32 word"

text \<open>\<open>fuse.FromContext\<close> yields the caller of a request, or a nil pointer and \<open>false\<close>.\<close>

type_synonym Context = "Caller option"

record SetAttrIn =
  Valid :: "32 word"
  Size :: "64 word"
  Mode :: "32 word"

text \<open>
  The host: the \<open>statx\<close> call and the operations of the embedded \<open>fs.LoopbackNode\<close>, all
  over a backing store of type \<open>'b\<close>.
\<close>

record 'b Host =
  Statx :: "'b \<Rightarrow> string \<Rightarrow> Errno + Statx_t"
  Loopback_Open :: "Node \<Rightarrow> 32 word \<Rightarrow> 'b \<Rightarrow> (FileHandle option \<times> 32 word \<times> Errno) \<times> 'b"
  Loopback_Create ::
    "Node \<Rightarrow> string \<Rightarrow> 32 word \<Rightarrow> 32 word \<Rightarrow> 'b \<Rightarrow> (FileHandle option \<times> 32 word \<times> Errno) \<times> 'b"
  Loopback_Unlink :: "Node \<Rightarrow> string \<Rightarrow> 'b \<Rightarrow> Errno \<times> 'b"
  Loopback_Rmdir :: "Node \<Rightarrow> string \<Rightarrow> 'b \<Rightarrow> Errno \<times> 'b"
  Loopback_Removexattr :: "Node \<Rightarrow> string \<Rightarrow> 'b \<Rightarrow> Errno \<times> 'b"
  Loopback_Setxattr :: "Node \<Rightarrow> string \<Rightarrow> 8 word list \<Rightarrow> 32 word \<Rightarrow> 'b \<Rightarrow> Errno \<times> 'b"
  Loopback_Setattr :: "Node \<Rightarrow> FileHandle option \<Rightarrow> SetAttrIn \<Rightarrow> 'b \<Rightarrow> Errno \<times> 'b"
  Loopback_Rename :: "Node \<Rightarrow> string \<Rightarrow> Node \<Rightarrow> string \<Rightarrow> 32 word \<Rightarrow> 'b \<Rightarrow> Errno \<times> 'b"

datatype LogLine =
  AccessGranted string Duration "32 word" "32 word" "32 word"
| WriteDenied string "32 word" "32 word" "32 word"

record 'b World =
  backing :: 'b
  logged :: "LogLine list"

datatype panic = NilPointerDereference

text \<open>The globals \<open>Log\<close> and \<open>Grace\<close>.\<close>

record Config =
  Log :: bool
  Grace :: Duration

subsection \<open>The decision: \<open>MutNode.deny\<close>\<close>

definition actual_path :: "Node \<Rightarrow> string \<Rightarrow> string" where
  "actual_path n name = filepath_Join (RootPath n) (filepath_Join (NodePath n) name)"

text \<open>
  \<open>now\<close> is the clock that \<open>time.Since\<close> reads. \<open>granted\<close> holds \<open>since\<close> when the lookup
  succeeded and \<open>since < Grace\<close>, the condition of the inner block of the source. With \<open>Log\<close> set
  both exits print \<open>caller.Pid\<close>, which dereferences the pointer that \<open>fuse.FromContext\<close>
  returned.
\<close>

definition deny ::
  "'b Host \<Rightarrow> Config \<Rightarrow> Node \<Rightarrow> Time \<Rightarrow> Context \<Rightarrow> string \<Rightarrow> 'b World
     \<Rightarrow> (panic + Errno) \<times> 'b World" where
  "deny H cfg n now ctx name w =
     (let actualPath = actual_path n name;
          caller = ctx;
          granted =
            (case btime (Statx H (backing w)) actualPath of
               Inl err \<Rightarrow> None
             | Inr bt \<Rightarrow>
                 (let since = time_Since now bt
                  in if since < Grace cfg then Some since else None))
      in case granted of
           Some since \<Rightarrow>
             (if \<not> Log cfg then (Inr OK, w)
              else (case caller of
                      None \<Rightarrow> (Inl NilPointerDereference, w)
                    | Some c \<Rightarrow>
                        (Inr OK,
                         w\<lparr>logged := logged w @
                             [AccessGranted actualPath (duration_minus (Grace cfg) since)
                                (Pid c) (Uid c) (Gid c)]\<rparr>)))
         | None \<Rightarrow>
             (if \<not> Log cfg then (Inr EACCES, w)
              else (case caller of
                      None \<Rightarrow> (Inl NilPointerDereference, w)
                    | Some c \<Rightarrow>
                        (Inr EACCES,
                         w\<lparr>logged := logged w @
                             [WriteDenied actualPath (Pid c) (Uid c) (Gid c)]\<rparr>))))"

subsection \<open>The handlers of \<open>MutNode\<close>\<close>

text \<open>
  Each handler asks \<open>deny\<close> first and calls the embedded loopback node only when \<open>deny\<close>
  returned \<open>fs.OK\<close>. A panic inside \<open>deny\<close> ends the handler.
\<close>

definition MutNode_Unlink ::
  "'b Host \<Rightarrow> Config \<Rightarrow> Node \<Rightarrow> Time \<Rightarrow> Context \<Rightarrow> string \<Rightarrow> 'b World
     \<Rightarrow> (panic + Errno) \<times> 'b World" where
  "MutNode_Unlink H cfg n now ctx name w =
     (case deny H cfg n now ctx name w of
        (Inl p, w1) \<Rightarrow> (Inl p, w1)
      | (Inr errno, w1) \<Rightarrow>
          if errno \<noteq> OK then (Inr errno, w1)
          else (case Loopback_Unlink H n name (backing w1) of
                  (e, b) \<Rightarrow> (Inr e, w1\<lparr>backing := b\<rparr>)))"

definition MutNode_Rmdir ::
  "'b Host \<Rightarrow> Config \<Rightarrow> Node \<Rightarrow> Time \<Rightarrow> Context \<Rightarrow> string \<Rightarrow> 'b World
     \<Rightarrow> (panic + Errno) \<times> 'b World" where
  "MutNode_Rmdir H cfg n now ctx name w =
     (case deny H cfg n now ctx name w of
        (Inl p, w1) \<Rightarrow> (Inl p, w1)
      | (Inr errno, w1) \<Rightarrow>
          if errno \<noteq> OK then (Inr errno, w1)
          else (case Loopback_Rmdir H n name (backing w1) of
                  (e, b) \<Rightarrow> (Inr e, w1\<lparr>backing := b\<rparr>)))"

definition MutNode_Removexattr ::
  "'b Host \<Rightarrow> Config \<Rightarrow> Node \<Rightarrow> Time \<Rightarrow> Context \<Rightarrow> string \<Rightarrow> 'b World
     \<Rightarrow> (panic + Errno) \<times> 'b World" where
  "MutNode_Removexattr H cfg n now ctx attr w =
     (case deny H cfg n now ctx [] w of
        (Inl p, w1) \<Rightarrow> (Inl p, w1)
      | (Inr errno, w1) \<Rightarrow>
          if errno \<noteq> OK then (Inr errno, w1)
          else (case Loopback_Removexattr H n attr (backing w1) of
                  (e, b) \<Rightarrow> (Inr e, w1\<lparr>backing := b\<rparr>)))"

definition MutNode_Setxattr ::
  "'b Host \<Rightarrow> Config \<Rightarrow> Node \<Rightarrow> Time \<Rightarrow> Context \<Rightarrow> string \<Rightarrow> 8 word list \<Rightarrow> 32 word
     \<Rightarrow> 'b World \<Rightarrow> (panic + Errno) \<times> 'b World" where
  "MutNode_Setxattr H cfg n now ctx attr data flags w =
     (case deny H cfg n now ctx [] w of
        (Inl p, w1) \<Rightarrow> (Inl p, w1)
      | (Inr errno, w1) \<Rightarrow>
          if errno \<noteq> OK then (Inr errno, w1)
          else (case Loopback_Setxattr H n attr data flags (backing w1) of
                  (e, b) \<Rightarrow> (Inr e, w1\<lparr>backing := b\<rparr>)))"

definition MutNode_Setattr ::
  "'b Host \<Rightarrow> Config \<Rightarrow> Node \<Rightarrow> Time \<Rightarrow> Context \<Rightarrow> FileHandle option \<Rightarrow> SetAttrIn
     \<Rightarrow> 'b World \<Rightarrow> (panic + Errno) \<times> 'b World" where
  "MutNode_Setattr H cfg n now ctx f inp w =
     (case deny H cfg n now ctx [] w of
        (Inl p, w1) \<Rightarrow> (Inl p, w1)
      | (Inr errno, w1) \<Rightarrow>
          if errno \<noteq> OK then (Inr errno, w1)
          else (case Loopback_Setattr H n f inp (backing w1) of
                  (e, b) \<Rightarrow> (Inr e, w1\<lparr>backing := b\<rparr>)))"

text \<open>\<open>Rename\<close> is called on the directory \<open>n\<close> that holds the entry \<open>name\<close>.\<close>

definition MutNode_Rename ::
  "'b Host \<Rightarrow> Config \<Rightarrow> Node \<Rightarrow> Time \<Rightarrow> Context \<Rightarrow> string \<Rightarrow> Node \<Rightarrow> string \<Rightarrow> 32 word
     \<Rightarrow> 'b World \<Rightarrow> (panic + Errno) \<times> 'b World" where
  "MutNode_Rename H cfg n now ctx name newParent newName flags w =
     (case deny H cfg n now ctx [] w of
        (Inl p, w1) \<Rightarrow> (Inl p, w1)
      | (Inr errno, w1) \<Rightarrow>
          if errno \<noteq> OK then (Inr errno, w1)
          else (case Loopback_Rename H n name newParent newName flags (backing w1) of
                  (e, b) \<Rightarrow> (Inr e, w1\<lparr>backing := b\<rparr>)))"

text \<open>The cases of the \<open>switch\<close> in \<open>Open\<close>, which all fall through to the last one.\<close>

definition write_intent :: "32 word \<Rightarrow> bool" where
  "write_intent flags =
     (flags AND O_APPEND \<noteq> 0 \<or> flags AND O_WRONLY \<noteq> 0 \<or>
      flags AND O_TRUNC \<noteq> 0 \<or> flags AND O_RDWR \<noteq> 0)"

text \<open>
  \<open>Open\<close>: with \<open>O_CREAT\<close> the loopback node opens the file first, with the flags of the
  request, and the handler returns that outcome at once when its errno is \<open>ENOENT\<close>.
  \<open>tried\<close> is the outcome of that first call and \<open>w0\<close> the world after it.
\<close>

definition MutNode_Open ::
  "'b Host \<Rightarrow> Config \<Rightarrow> Node \<Rightarrow> Time \<Rightarrow> Context \<Rightarrow> 32 word \<Rightarrow> 'b World
     \<Rightarrow> (panic + FileHandle option \<times> 32 word \<times> Errno) \<times> 'b World" where
  "MutNode_Open H cfg n now ctx flags w =
     (let (tried, w0) =
            (if flags AND O_CREAT \<noteq> 0
             then (case Loopback_Open H n flags (backing w) of
                     (r, b) \<Rightarrow> (Some r, w\<lparr>backing := b\<rparr>))
             else (None, w));
          early =
            (case tried of
               Some (fs1, flags1, errno1) \<Rightarrow>
                 if errno1 = ENOENT then Some (fs1, flags1, errno1) else None
             | None \<Rightarrow> None)
      in case early of
           Some r \<Rightarrow> (Inr r, w0)
         | None \<Rightarrow>
             if write_intent flags then
               (case deny H cfg n now ctx [] w0 of
                  (Inl p, w1) \<Rightarrow> (Inl p, w1)
                | (Inr errno, w1) \<Rightarrow>
                    if errno \<noteq> OK then (Inr (None, 0, errno), w1)
                    else (case Loopback_Open H n flags (backing w1) of
                            (r, b) \<Rightarrow> (Inr r, w1\<lparr>backing := b\<rparr>)))
             else
               (let flags2 = flags AND NOT 0x8000
                in if flags2 = O_RDONLY
                   then (case Loopback_Open H n flags2 (backing w0) of
                           (r, b) \<Rightarrow> (Inr r, w0\<lparr>backing := b\<rparr>))
                   else (Inr (None, 0, EACCES), w0)))"

subsection \<open>Creation: the handler \<open>MutNode\<close> does not declare\<close>

text \<open>
  \<open>MutNode\<close> declares no \<open>Create\<close> (nor \<open>Mkdir\<close>, \<open>Mknod\<close>, \<open>Symlink\<close>, \<open>Link\<close>): the method of
  the embedded \<open>fs.LoopbackNode\<close> is promoted, so a creation goes to the loopback node and
  \<open>deny\<close> is not asked. \<open>Create\<close> is called on the directory, with the name of the new
  entry.
\<close>

definition MutNode_Create ::
  "'b Host \<Rightarrow> Node \<Rightarrow> string \<Rightarrow> 32 word \<Rightarrow> 32 word \<Rightarrow> 'b World
     \<Rightarrow> (panic + FileHandle option \<times> 32 word \<times> Errno) \<times> 'b World" where
  "MutNode_Create H n name flags mode w =
     (case Loopback_Create H n name flags mode (backing w) of
        (r, b) \<Rightarrow> (Inr r, w\<lparr>backing := b\<rparr>))"

subsection \<open>Requests, as the kernel and go-fuse hand them to the handlers\<close>

text \<open>
  The program is a \<open>package main\<close>: its handlers are called by go-fuse under \<open>fs.Mount\<close>
  and by nothing else. A request names the operation and its arguments; \<open>handle\<close> is the
  dispatch of go-fuse to the method set of \<open>MutNode\<close>, keeping the errno of each reply.
\<close>

datatype Request =
  ReqUnlink string
| ReqRmdir string
| ReqRename string Node string "32 word"
| ReqSetattr "FileHandle option" SetAttrIn
| ReqSetxattr string "8 word list" "32 word"
| ReqRemovexattr string
| ReqOpen "32 word"
| ReqCreate string "32 word" "32 word"

definition errno_of ::
  "(panic + FileHandle option \<times> 32 word \<times> Errno) \<times> 'b World \<Rightarrow> (panic + Errno) \<times> 'b World" where
  "errno_of r =
     (case r of
        (Inl p, w) \<Rightarrow> (Inl p, w)
      | (Inr (fh, fuseFlags, errno), w) \<Rightarrow> (Inr errno, w))"

fun handle ::
  "'b Host \<Rightarrow> Config \<Rightarrow> Node \<Rightarrow> Time \<Rightarrow> Context \<Rightarrow> Request \<Rightarrow> 'b World
     \<Rightarrow> (panic + Errno) \<times> 'b World" where
  "handle H cfg n now ctx (ReqUnlink name) w = MutNode_Unlink H cfg n now ctx name w"
| "handle H cfg n now ctx (ReqRmdir name) w = MutNode_Rmdir H cfg n now ctx name w"
| "handle H cfg n now ctx (ReqRename name newParent newName flags) w =
     MutNode_Rename H cfg n now ctx name newParent newName flags w"
| "handle H cfg n now ctx (ReqSetattr f inp) w = MutNode_Setattr H cfg n now ctx f inp w"
| "handle H cfg n now ctx (ReqSetxattr attr data flags) w =
     MutNode_Setxattr H cfg n now ctx attr data flags w"
| "handle H cfg n now ctx (ReqRemovexattr attr) w = MutNode_Removexattr H cfg n now ctx attr w"
| "handle H cfg n now ctx (ReqOpen flags) w = errno_of (MutNode_Open H cfg n now ctx flags w)"
| "handle H cfg n now ctx (ReqCreate name flags mode) w =
     errno_of (MutNode_Create H n name flags mode w)"

text \<open>
  The name that the handler of a request passes to \<open>deny\<close>, and the operations that the
  handlers treat as destructive: all but a creation and an \<open>Open\<close> without write intent.
\<close>

fun deny_name :: "Request \<Rightarrow> string" where
  "deny_name (ReqUnlink name) = name"
| "deny_name (ReqRmdir name) = name"
| "deny_name r = []"

fun destructive :: "Request \<Rightarrow> bool" where
  "destructive (ReqOpen flags) = write_intent flags"
| "destructive (ReqCreate name flags mode) = False"
| "destructive r = True"

text \<open>
  What the Linux kernel does before a handler runs. The flags of an \<open>OPEN\<close> request come
  without \<open>O_CREAT\<close>, \<open>O_EXCL\<close> and \<open>O_NOCTTY\<close>. On a mount whose options carry \<open>ro\<close> a request
  that modifies the filesystem (for an open: write access or truncation) is answered with
  \<open>EROFS\<close> and reaches no handler.
\<close>

definition fuse_open_flags :: "32 word \<Rightarrow> 32 word" where
  "fuse_open_flags flags = flags AND NOT (O_CREAT OR O_EXCL OR O_NOCTTY)"

fun deliver :: "Request \<Rightarrow> Request" where
  "deliver (ReqOpen flags) = ReqOpen (fuse_open_flags flags)"
| "deliver r = r"





text \<open>The same request, tried again at each of the times \<open>ts\<close>.\<close>

fun attempts ::
  "'b Host \<Rightarrow> Config \<Rightarrow> Node \<Rightarrow> Context \<Rightarrow> Request \<Rightarrow> Time list \<Rightarrow> 'b World
     \<Rightarrow> (panic + Errno) list \<times> 'b World" where
  "attempts H cfg n ctx req [] w = ([], w)"
| "attempts H cfg n ctx req (t # ts) w =
     (case handle H cfg n t ctx req w of
        (r, w1) \<Rightarrow>
          (case attempts H cfg n ctx req ts w1 of
             (rs, w2) \<Rightarrow> (r # rs, w2)))"

subsection \<open>The \<open>deny\<close> of the logging-only revision (main.go)\<close>

text \<open>
  The earlier revision has no grace period; its \<open>deny\<close> looks at the \<open>ok\<close> that
  \<open>fuse.FromContext\<close> returns before it touches the caller.
\<close>

datatype LogLine0 =
  DeniedTo string "32 word" "32 word" "32 word"
| DeniedFrom "32 word" "32 word" "32 word"

definition deny_main_go :: "bool \<Rightarrow> Context \<Rightarrow> string \<Rightarrow> LogLine0 list \<Rightarrow> Errno \<times> LogLine0 list" where
  "deny_main_go log ctx name out =
     (if \<not> log then (EACCES, out)
      else (case ctx of
              None \<Rightarrow> (EACCES, out)
            | Some caller \<Rightarrow>
                if name \<noteq> [] then (EACCES, out @ [DeniedTo name (Pid caller) (Uid caller) (Gid caller)])
                else (EACCES, out @ [DeniedFrom (Pid caller) (Uid caller) (Gid caller)])))"

subsection \<open>\<open>main\<close>: arguments, options, mount\<close>

text \<open>
  \<open>fs.Options\<close> with the fields \<open>main\<close> sets (those of the embedded \<open>fuse.MountOptions\<close>
  included).
\<close>

record Options =
  AttrTimeout :: Duration
  EntryTimeout :: Duration
  Debug :: bool
  NullPermissions :: bool
  AllowOther :: bool
  MountOptions_Options :: "string list"
  MountOptions_Name :: string

text \<open>
  What \<open>main\<close> asks of its surroundings: \<open>os.Stat\<close> (\<open>Inl\<close> the error, \<open>Inr\<close> the answer of
  \<open>IsDir\<close>), \<open>time.ParseDuration\<close> and whether \<open>fs.Mount\<close> succeeds.
\<close>

record Env =
  os_Stat :: "string \<Rightarrow> string + bool"
  time_ParseDuration :: "string \<Rightarrow> string + Duration"
  fs_Mount :: "string \<Rightarrow> Node \<Rightarrow> Options \<Rightarrow> bool"

text \<open>
  The process either exits with a status (\<open>os.Exit(2)\<close>; \<open>log.Fatalf\<close> prints and calls
  \<open>os.Exit(1)\<close>) or serves the mount until it is unmounted and then returns from \<open>main\<close>.
\<close>

datatype Outcome =
  Exit nat
| Served string Node Options Config

text \<open>The loop over the two directories; \<open>Some\<close> is the exit status of a \<open>log.Fatalf\<close>.\<close>

fun check_dirs :: "Env \<Rightarrow> string list \<Rightarrow> nat option" where
  "check_dirs E [] = None"
| "check_dirs E (d # ds) =
     (case os_Stat E d of
        Inl err \<Rightarrow> Some 1
      | Inr isDir \<Rightarrow> if \<not> isDir then Some 1 else check_dirs E ds)"

text \<open>One round of the loop over the options: the \<open>switch\<close>, first matching case.\<close>

definition apply_opt :: "Env \<Rightarrow> string \<Rightarrow> Options \<times> Config \<Rightarrow> nat + Options \<times> Config" where
  "apply_opt E o' oc =
     (case oc of (opts, cfg) \<Rightarrow>
        if o' = ''debug'' then Inr (opts\<lparr>Debug := True\<rparr>, cfg)
        else if o' = ''null'' then Inr (opts\<lparr>NullPermissions := True\<rparr>, cfg)
        else if o' = ''allow_other'' then
          Inr (opts\<lparr>AllowOther := True,
                     MountOptions_Options := MountOptions_Options opts @ [''default_permissions'']\<rparr>, cfg)
        else if o' = ''ro'' then
          Inr (opts\<lparr>MountOptions_Options := MountOptions_Options opts @ [''ro'']\<rparr>, cfg)
        else if o' = ''log'' then Inr (opts, cfg\<lparr>Log := True\<rparr>)
        else if strings_HasPrefix o' ''grace='' then
          (let xs = split_sep CHR ''='' o'
           in if length xs \<noteq> 2 then Inl 1
              else (case time_ParseDuration E (xs ! 1) of
                      Inl err \<Rightarrow> Inl 1
                    | Inr d \<Rightarrow> Inr (opts, cfg\<lparr>Grace := d\<rparr>)))
        else Inr (opts, cfg))"

fun apply_opts :: "Env \<Rightarrow> string list \<Rightarrow> Options \<times> Config \<Rightarrow> nat + Options \<times> Config" where
  "apply_opts E [] oc = Inr oc"
| "apply_opts E (o' # os) oc =
     (case apply_opt E o' oc of
        Inl code \<Rightarrow> Inl code
      | Inr oc' \<Rightarrow> apply_opts E os oc')"

text \<open>
  \<open>flagOpts\<close> is the value of \<open>-o\<close>, \<open>args\<close> the arguments left after the flags
  (\<open>flag.Args()\<close>). The globals start at their zero values.
\<close>

definition main :: "Env \<Rightarrow> string list \<Rightarrow> string list \<Rightarrow> Outcome" where
  "main E flagOpts args =
     (if length args < 2 then Exit 2
      else
        (let olddir = args ! 0
         in case check_dirs E [olddir, args ! 1] of
              Some code \<Rightarrow> Exit code
            | None \<Rightarrow>
                (let mutnode = \<lparr>RootPath = olddir, NodePath = []\<rparr>;
                     sec = 1000000000;
                     opts = \<lparr>AttrTimeout = sec, EntryTimeout = sec, Debug = False,
                             NullPermissions = False, AllowOther = False,
                             MountOptions_Options = [], MountOptions_Name = []\<rparr>
                 in case apply_opts E flagOpts (opts, \<lparr>Log = False, Grace = 0\<rparr>) of
                      Inl code \<Rightarrow> Exit code
                    | Inr (opts1, cfg) \<Rightarrow>
                        (let opts2 = opts1\<lparr>MountOptions_Options :=
                                             MountOptions_Options opts1 @ [''fsname='' @ olddir],
                                           MountOptions_Name := ''mutfs''\<rparr>
                         in if fs_Mount E (args ! 1) mutnode opts2
                            then Served (args ! 1) mutnode opts2 cfg
                            else Exit 1))))"

subsection \<open>A small backing store for concrete runs\<close>

text \<open>
  The general theorems below hold for every host. Concrete runs use this one: a flat table
  from paths to files over a clock. \<open>store_Open\<close> follows \<open>LoopbackNode.Open\<close> (drop
  \<open>O_APPEND\<close>, then \<open>open(2)\<close> on the node's path with mode 0): \<open>O_CREAT\<close> makes a missing
  file when its directory is there, \<open>O_TRUNC\<close> empties an existing one. \<open>store_Create\<close>
  follows \<open>LoopbackNode.Create\<close>: the same \<open>open(2)\<close> with \<open>O_CREAT\<close> added, on the entry
  of the directory. \<open>store_Rmdir\<close> refuses a directory that has entries. Attributes are
  not kept, so the attribute operations only check that the path exists.
\<close>

record File =
  born :: Time
  changed :: Time
  content :: string

record Store =
  clock :: Time
  files :: "(string \<times> File) list"

definition stamp :: "Time \<Rightarrow> StatxTimestamp" where
  "stamp t = \<lparr>Sec = word_of_int (t div 1000000000), Nsec = word_of_int (t mod 1000000000)\<rparr>"

definition store_Statx :: "Store \<Rightarrow> string \<Rightarrow> Errno + Statx_t" where
  "store_Statx st p =
     (case map_of (files st) p of
        None \<Rightarrow> Inl ENOENT
      | Some f \<Rightarrow>
          Inr \<lparr>Mask = 0xfff, Atime = stamp (changed f), Btime = stamp (born f),
               Ctime = stamp (changed f), Mtime = stamp (changed f)\<rparr>)"

definition node_path :: "Node \<Rightarrow> string" where
  "node_path n = filepath_Join (RootPath n) (NodePath n)"

definition put_file :: "string \<Rightarrow> File \<Rightarrow> Store \<Rightarrow> Store" where
  "put_file p f st = st\<lparr>files := (p, f) # filter (\<lambda>kv. fst kv \<noteq> p) (files st)\<rparr>"

definition drop_file :: "string \<Rightarrow> Store \<Rightarrow> Store" where
  "drop_file p st = st\<lparr>files := filter (\<lambda>kv. fst kv \<noteq> p) (files st)\<rparr>"

definition has_directory :: "Store \<Rightarrow> string \<Rightarrow> bool" where
  "has_directory st p =
     (let q = join_sep (butlast (split_sep CHR ''/'' p))
      in q = [] \<or> map_of (files st) q \<noteq> None)"

definition open_at :: "string \<Rightarrow> 32 word \<Rightarrow> Store \<Rightarrow> (FileHandle option \<times> 32 word \<times> Errno) \<times> Store" where
  "open_at p flags st =
     (case map_of (files st) p of
        None \<Rightarrow>
          if flags AND O_CREAT \<noteq> 0 \<and> has_directory st p
          then ((Some 3, 0, OK),
                put_file p \<lparr>born = clock st, changed = clock st, content = []\<rparr> st)
          else ((None, 0, ENOENT), st)
      | Some f \<Rightarrow>
          if flags AND O_CREAT \<noteq> 0 \<and> flags AND O_EXCL \<noteq> 0 then ((None, 0, EEXIST), st)
          else if flags AND O_TRUNC \<noteq> 0
          then ((Some 3, 0, OK), put_file p (f\<lparr>changed := clock st, content := []\<rparr>) st)
          else ((Some 3, 0, OK), st))"

definition store_Open :: "Node \<Rightarrow> 32 word \<Rightarrow> Store \<Rightarrow> (FileHandle option \<times> 32 word \<times> Errno) \<times> Store" where
  "store_Open n flags st = open_at (node_path n) (flags AND NOT O_APPEND) st"

definition store_Create ::
  "Node \<Rightarrow> string \<Rightarrow> 32 word \<Rightarrow> 32 word \<Rightarrow> Store \<Rightarrow> (FileHandle option \<times> 32 word \<times> Errno) \<times> Store" where
  "store_Create n name flags mode st =
     open_at (filepath_Join (node_path n) name) ((flags AND NOT O_APPEND) OR O_CREAT) st"

definition store_remove :: "Node \<Rightarrow> string \<Rightarrow> Store \<Rightarrow> Errno \<times> Store" where
  "store_remove n name st =
     (let p = filepath_Join (node_path n) name
      in case map_of (files st) p of
           None \<Rightarrow> (ENOENT, st)
         | Some f \<Rightarrow> (OK, drop_file p st))"

definition store_Rmdir :: "Node \<Rightarrow> string \<Rightarrow> Store \<Rightarrow> Errno \<times> Store" where
  "store_Rmdir n name st =
     (let p = filepath_Join (node_path n) name
      in case map_of (files st) p of
           None \<Rightarrow> (ENOENT, st)
         | Some f \<Rightarrow>
             if list_ex (\<lambda>kv. strings_HasPrefix (fst kv) (p @ ''/'')) (files st)
             then (ENOTEMPTY, st)
             else (OK, drop_file p st))"

definition store_touch :: "Node \<Rightarrow> Store \<Rightarrow> Errno \<times> Store" where
  "store_touch n st =
     (case map_of (files st) (node_path n) of
        None \<Rightarrow> (ENOENT, st)
      | Some f \<Rightarrow> (OK, st))"

definition store_Rename :: "Node \<Rightarrow> string \<Rightarrow> Node \<Rightarrow> string \<Rightarrow> 32 word \<Rightarrow> Store \<Rightarrow> Errno \<times> Store" where
  "store_Rename n name newParent newName flags st =
     (let p = filepath_Join (node_path n) name;
          q = filepath_Join (node_path newParent) newName
      in case map_of (files st) p of
           None \<Rightarrow> (ENOENT, st)
         | Some f \<Rightarrow> (OK, put_file q f (drop_file p st)))"

definition store_Host :: "Store Host" where
  "store_Host =
     \<lparr>Statx = store_Statx,
      Loopback_Open = store_Open,
      Loopback_Create = store_Create,
      Loopback_Unlink = store_remove,
      Loopback_Rmdir = store_Rmdir,
      Loopback_Removexattr = (\<lambda>n attr. store_touch n),
      Loopback_Setxattr = (\<lambda>n attr data flags. store_touch n),
      Loopback_Setattr = (\<lambda>n f inp. store_touch n),
      Loopback_Rename = store_Rename\<rparr>"

text \<open>One second, and a file that holds \<open>1\<close>, born at second \<open>s\<close>.\<close>

definition Second :: Duration where
  "Second = 1000000000"

definition file_born :: "int \<Rightarrow> File" where
  "file_born s = \<lparr>born = s * Second, changed = s * Second, content = ''1''\<rparr>"

text \<open>
  The sample world, at second 100, under the root \<open>/b\<close>: the directory \<open>/b/d\<close> is as old as
  the epoch and its entry \<open>a\<close> is one second old. In \<open>fresh_dir_world\<close> it is the other way
  round.
\<close>

definition sample_world :: "Store World" where
  "sample_world =
     \<lparr>backing = \<lparr>clock = 100 * Second,
                  files = [(''/b'', file_born 0), (''/b/d'', file_born 0), (''/b/d/a'', file_born 99)]\<rparr>,
      logged = []\<rparr>"

definition fresh_dir_world :: "Store World" where
  "fresh_dir_world =
     \<lparr>backing = \<lparr>clock = 100 * Second,
                  files = [(''/b'', file_born 0), (''/b/d'', file_born 99), (''/b/d/a'', file_born 0)]\<rparr>,
      logged = []\<rparr>"

definition dir_node :: Node where
  "dir_node = \<lparr>RootPath = ''/b'', NodePath = ''d''\<rparr>"

definition file_node :: Node where
  "file_node = \<lparr>RootPath = ''/b'', NodePath = ''d/a''\<rparr>"

definition new_node :: Node where
  "new_node = \<lparr>RootPath = ''/b'', NodePath = ''d/new''\<rparr>"

definition sample_caller :: Caller where
  "sample_caller = \<lparr>Pid = 4242, Uid = 1000, Gid = 1000\<rparr>"

text \<open>
  Surroundings for \<open>main\<close>: \<open>/b\<close> and \<open>/mnt\<close> are directories, \<open>/b/file\<close> is a file, nothing
  else exists; \<open>5s\<close> is the one duration that parses; mounting succeeds.
\<close>

definition sample_env :: Env where
  "sample_env =
     \<lparr>os_Stat = (\<lambda>d. if d = ''/b'' \<or> d = ''/mnt'' then Inr True
                     else if d = ''/b/file'' then Inr False
                     else Inl ''no such file or directory''),
      time_ParseDuration = (\<lambda>s. if s = ''5s'' then Inr (5 * Second)
                                else Inl ''time: invalid duration''),
      fs_Mount = (\<lambda>mountpoint root opts. True)\<rparr>"

text \<open>An argument that is not an existing directory: \<open>os.Stat\<close> fails or \<open>IsDir\<close> is false.\<close>

definition not_a_directory :: "Env \<Rightarrow> string \<Rightarrow> bool" where
  "not_a_directory E d = (case os_Stat E d of Inl err \<Rightarrow> True | Inr isDir \<Rightarrow> \<not> isDir)"

text \<open>The host reports a birth time: bit \<open>STATX_BTIME\<close> of the mask is set.\<close>

definition reports_btime :: "Statx_t \<Rightarrow> bool" where
  "reports_btime st = (Mask st AND STATX_BTIME \<noteq> 0)"

text \<open>
  A successful \<open>statx\<close> on a filesystem that keeps no birth time: the basic fields are
  there, bit \<open>STATX_BTIME\<close> is clear and \<open>stx_btime\<close> is zero.
\<close>

definition no_btime_statx :: Statx_t where
  "no_btime_statx =
     \<lparr>Mask = 0x7ff, Atime = stamp (7 * Second), Btime = stamp 0,
      Ctime = stamp (7 * Second), Mtime = stamp (7 * Second)\<rparr>"

section \<open>Properties\<close>

subsection \<open>Facts about time and about \<open>deny\<close>\<close>

lemma deny_backing: "backing (snd (deny H cfg n now ctx name w)) = backing w"
  by (simp add: deny_def Let_def split: option.splits sum.splits)

lemma time_Sub_exact:
  "minDuration \<le> t - u \<Longrightarrow> t - u \<le> maxDuration \<Longrightarrow> time_Sub t u = t - u"
  by (simp add: time_Sub_def Let_def)

lemma time_Since_less_exact:
  "minDuration < g \<Longrightarrow> g \<le> maxDuration \<Longrightarrow> (time_Since now bt < g) = (now - bt < g)"
  by (auto simp: time_Since_def time_Sub_def Let_def)

text \<open>Two lookups in the sample world: the entry \<open>a\<close> and a path that is not there.\<close>

lemma sample_btime_a:
  "btime (Statx store_Host (backing sample_world)) (actual_path dir_node ''a'') = Inr (99 * Second)"
  by code_simp

lemma sample_btime_missing:
  "btime (Statx store_Host (backing sample_world)) (actual_path dir_node ''zz'') = Inl ENOENT"
  by code_simp

subsection \<open>The grace boundary\<close>

text \<open>
  C1. When the creation-time lookup of \<open>deny\<close> succeeds with \<open>bt\<close>, the elapsed time is
  \<open>e = time.Since(bt)\<close> and the grace period is \<open>G = Grace\<close>: \<open>deny\<close> returns \<open>fs.OK\<close> (Allow)
  if and only if \<open>e < G\<close>; at \<open>e = G\<close> it returns \<open>EACCES\<close> (Deny); and it returns nothing but
  these two. The request carries its caller whenever logging is on (every request that
  go-fuse hands over does); the request without a caller is the subject of C7.
\<close>

theorem deny_grace_boundary:
  assumes "btime (Statx H (backing w)) (actual_path n name) = Inr bt"
    and "Log cfg \<longrightarrow> ctx \<noteq> None"
  shows "((fst (deny H cfg n now ctx name w) = Inr OK) = (time_Since now bt < Grace cfg)) \<and>
         (time_Since now bt = Grace cfg \<longrightarrow> fst (deny H cfg n now ctx name w) = Inr EACCES) \<and>
         (fst (deny H cfg n now ctx name w) = Inr OK \<or> fst (deny H cfg n now ctx name w) = Inr EACCES)"
  using assms by (auto simp: deny_def Let_def OK_def EACCES_def split: option.splits)

text \<open>At second 100 the entry born at second 99 is allowed with a grace of 5s and refused with a grace of exactly 1s.\<close>

theorem deny_grace_boundary_witness:
  "btime (Statx store_Host (backing sample_world)) (actual_path dir_node ''a'') = Inr (99 * Second) \<and>
   time_Since (100 * Second) (99 * Second) = 1 * Second \<and>
   fst (deny store_Host \<lparr>Log = True, Grace = 5 * Second\<rparr> dir_node (100 * Second)
          (Some sample_caller) ''a'' sample_world) = Inr OK \<and>
   fst (deny store_Host \<lparr>Log = True, Grace = 1 * Second\<rparr> dir_node (100 * Second)
          (Some sample_caller) ''a'' sample_world) = Inr EACCES"
proof -
  have since: "time_Since (100 * Second) (99 * Second) = 1 * Second"
    by code_simp
  have inside: "time_Since (100 * Second) (99 * Second) < Grace \<lparr>Log = True, Grace = 5 * Second\<rparr>"
    by code_simp
  have edge: "time_Since (100 * Second) (99 * Second) = Grace \<lparr>Log = True, Grace = 1 * Second\<rparr>"
    by code_simp
  have caller: "Log c \<longrightarrow> Some sample_caller \<noteq> None" for c :: Config
    by simp
  from deny_grace_boundary [OF sample_btime_a caller, of "\<lparr>Log = True, Grace = 5 * Second\<rparr>" "100 * Second"] inside
  have allow: "fst (deny store_Host \<lparr>Log = True, Grace = 5 * Second\<rparr> dir_node (100 * Second)
          (Some sample_caller) ''a'' sample_world) = Inr OK"
    by blast
  from deny_grace_boundary [OF sample_btime_a caller, of "\<lparr>Log = True, Grace = 1 * Second\<rparr>" "100 * Second"] edge
  have refuse: "fst (deny store_Host \<lparr>Log = True, Grace = 1 * Second\<rparr> dir_node (100 * Second)
          (Some sample_caller) ''a'' sample_world) = Inr EACCES"
    by blast
  from sample_btime_a since allow refuse show ?thesis by blast
qed

subsection \<open>Fail closed when the creation time is unavailable\<close>

text \<open>
  C2. When the creation-time lookup of \<open>deny\<close> fails, \<open>deny\<close> returns \<open>EACCES\<close> for every
  grace period \<open>g\<close>, and leaves the backing store as it was. As in C1 the request carries
  its caller whenever logging is on.
\<close>

theorem deny_fail_closed:
  assumes "btime (Statx H (backing w)) (actual_path n name) = Inl err"
    and "Log cfg \<longrightarrow> ctx \<noteq> None"
  shows "fst (deny H (cfg\<lparr>Grace := g\<rparr>) n now ctx name w) = Inr EACCES \<and>
         backing (snd (deny H (cfg\<lparr>Grace := g\<rparr>) n now ctx name w)) = backing w"
  using assms by (auto simp: deny_def Let_def split: option.splits)

text \<open>A path that does not exist is refused even with a grace of a million seconds.\<close>

theorem deny_fail_closed_witness:
  "btime (Statx store_Host (backing sample_world)) (actual_path dir_node ''zz'') = Inl ENOENT \<and>
   fst (deny store_Host \<lparr>Log = True, Grace = 1000000 * Second\<rparr> dir_node (100 * Second)
          (Some sample_caller) ''zz'' sample_world) = Inr EACCES"
proof -
  have caller: "Log \<lparr>Log = True, Grace = 0\<rparr> \<longrightarrow> Some sample_caller \<noteq> None"
    by simp
  from deny_fail_closed [OF sample_btime_missing caller, of "1000000 * Second" "100 * Second"]
  have "fst (deny store_Host \<lparr>Log = True, Grace = 1000000 * Second\<rparr> dir_node (100 * Second)
          (Some sample_caller) ''zz'' sample_world) = Inr EACCES"
    by simp
  with sample_btime_missing show ?thesis by blast
qed

subsection \<open>A request without a caller\<close>

text \<open>
  C7. With logging on and a context that carries no caller, \<open>deny\<close> does not return: both
  of its exits format \<open>caller.Pid\<close> through the nil pointer, and so does every handler that
  calls it (here \<open>Unlink\<close>). The \<open>deny\<close> of the logging-only revision returns \<open>EACCES\<close> on the
  same input.
\<close>

theorem deny_panics_without_caller:
  "fst (deny H \<lparr>Log = True, Grace = g\<rparr> n now None name w) = Inl NilPointerDereference \<and>
   fst (MutNode_Unlink H \<lparr>Log = True, Grace = g\<rparr> n now None name w) = Inl NilPointerDereference \<and>
   deny_main_go True None name out = (EACCES, out)"
  by (simp add: deny_def MutNode_Unlink_def deny_main_go_def Let_def split: option.splits sum.splits)

subsection \<open>A refusal leaves the backing store alone\<close>

text \<open>
  When \<open>deny\<close> refuses, each of these handlers returns the errno of \<open>deny\<close> and the backing
  store is the one it started with: the loopback node is not called.
\<close>

lemma denied_Unlink:
  "fst (deny H cfg n now ctx name w) = Inr e \<Longrightarrow> e \<noteq> OK \<Longrightarrow>
   fst (MutNode_Unlink H cfg n now ctx name w) = Inr e \<and>
   backing (snd (MutNode_Unlink H cfg n now ctx name w)) = backing w"
  using deny_backing [of H cfg n now ctx name w]
  by (cases "deny H cfg n now ctx name w") (simp add: MutNode_Unlink_def)

lemma denied_Rmdir:
  "fst (deny H cfg n now ctx name w) = Inr e \<Longrightarrow> e \<noteq> OK \<Longrightarrow>
   fst (MutNode_Rmdir H cfg n now ctx name w) = Inr e \<and>
   backing (snd (MutNode_Rmdir H cfg n now ctx name w)) = backing w"
  using deny_backing [of H cfg n now ctx name w]
  by (cases "deny H cfg n now ctx name w") (simp add: MutNode_Rmdir_def)

lemma denied_Removexattr:
  "fst (deny H cfg n now ctx [] w) = Inr e \<Longrightarrow> e \<noteq> OK \<Longrightarrow>
   fst (MutNode_Removexattr H cfg n now ctx attr w) = Inr e \<and>
   backing (snd (MutNode_Removexattr H cfg n now ctx attr w)) = backing w"
  using deny_backing [of H cfg n now ctx "[]" w]
  by (cases "deny H cfg n now ctx [] w") (simp add: MutNode_Removexattr_def)

lemma denied_Setxattr:
  "fst (deny H cfg n now ctx [] w) = Inr e \<Longrightarrow> e \<noteq> OK \<Longrightarrow>
   fst (MutNode_Setxattr H cfg n now ctx attr data flags w) = Inr e \<and>
   backing (snd (MutNode_Setxattr H cfg n now ctx attr data flags w)) = backing w"
  using deny_backing [of H cfg n now ctx "[]" w]
  by (cases "deny H cfg n now ctx [] w") (simp add: MutNode_Setxattr_def)

lemma denied_Setattr:
  "fst (deny H cfg n now ctx [] w) = Inr e \<Longrightarrow> e \<noteq> OK \<Longrightarrow>
   fst (MutNode_Setattr H cfg n now ctx f inp w) = Inr e \<and>
   backing (snd (MutNode_Setattr H cfg n now ctx f inp w)) = backing w"
  using deny_backing [of H cfg n now ctx "[]" w]
  by (cases "deny H cfg n now ctx [] w") (simp add: MutNode_Setattr_def)

lemma denied_Rename:
  "fst (deny H cfg n now ctx [] w) = Inr e \<Longrightarrow> e \<noteq> OK \<Longrightarrow>
   fst (MutNode_Rename H cfg n now ctx name newParent newName flags w) = Inr e \<and>
   backing (snd (MutNode_Rename H cfg n now ctx name newParent newName flags w)) = backing w"
  using deny_backing [of H cfg n now ctx "[]" w]
  by (cases "deny H cfg n now ctx [] w") (simp add: MutNode_Rename_def)

lemma denied_Open_without_create:
  "flags AND O_CREAT = 0 \<Longrightarrow> write_intent flags \<Longrightarrow>
   fst (deny H cfg n now ctx [] w) = Inr e \<Longrightarrow> e \<noteq> OK \<Longrightarrow>
   fst (MutNode_Open H cfg n now ctx flags w) = Inr (None, 0, e) \<and>
   backing (snd (MutNode_Open H cfg n now ctx flags w)) = backing w"
  using deny_backing [of H cfg n now ctx "[]" w]
  by (cases "deny H cfg n now ctx [] w") (simp add: MutNode_Open_def)

text \<open>The flags of an \<open>OPEN\<close> request: no \<open>O_CREAT\<close>, and the write intent of the flags of \<open>open(2)\<close>.\<close>

lemma fuse_open_flags_no_create: "fuse_open_flags flags AND O_CREAT = 0"
  by (simp add: fuse_open_flags_def O_CREAT_def O_EXCL_def O_NOCTTY_def and.assoc)



text \<open>A refusal of \<open>deny\<close> depends on the backing store only, and stays a refusal later on.\<close>

lemma time_Sub_mono: "t0 \<le> t \<Longrightarrow> time_Sub t0 u \<le> time_Sub t u"
  by (simp add: time_Sub_def Let_def minDuration_def maxDuration_def)

lemma deny_verdict_backing:
  "backing w' = backing w \<Longrightarrow>
   fst (deny H cfg n now ctx name w') = fst (deny H cfg n now ctx name w)"
  by (simp add: deny_def Let_def split: option.splits sum.splits)

lemma deny_later:
  assumes "fst (deny H cfg n t0 ctx name w) = Inr EACCES"
    and "t0 \<le> t"
  shows "fst (deny H cfg n t ctx name w) = Inr EACCES"
proof (cases "btime (Statx H (backing w)) (actual_path n name)")
  case (Inl err)
  with assms(1) show ?thesis
    by (simp add: deny_def Let_def split: option.splits if_splits)
next
  case (Inr bt)
  from time_Sub_mono [OF assms(2), of bt]
  have "time_Since t0 bt \<le> time_Since t bt"
    by (simp add: time_Since_def)
  with assms(1) Inr show ?thesis
    by (auto simp: deny_def Let_def OK_def EACCES_def split: option.splits if_splits)
qed

text \<open>Every destructive request that \<open>deny\<close> refuses comes back with the errno of \<open>deny\<close>.\<close>

lemma handle_refused:
  assumes "destructive (deliver req)"
    and "fst (deny H cfg n now ctx (deny_name (deliver req)) w) = Inr e"
    and "e \<noteq> OK"
  shows "fst (handle H cfg n now ctx (deliver req) w) = Inr e \<and>
         backing (snd (handle H cfg n now ctx (deliver req) w)) = backing w"
proof (cases req)
  case (ReqUnlink name)
  with assms denied_Unlink [of H cfg n now ctx name w e] show ?thesis by simp
next
  case (ReqRmdir name)
  with assms denied_Rmdir [of H cfg n now ctx name w e] show ?thesis by simp
next
  case (ReqRename name newParent newName flags)
  with assms denied_Rename [of H cfg n now ctx w e name newParent newName flags]
  show ?thesis by simp
next
  case (ReqSetattr f inp)
  with assms denied_Setattr [of H cfg n now ctx w e f inp] show ?thesis by simp
next
  case (ReqSetxattr attr data flags)
  with assms denied_Setxattr [of H cfg n now ctx w e attr data flags] show ?thesis by simp
next
  case (ReqRemovexattr attr)
  with assms denied_Removexattr [of H cfg n now ctx w e attr] show ?thesis by simp
next
  case (ReqOpen flags)
  with assms denied_Open_without_create [OF fuse_open_flags_no_create, of flags H cfg n now ctx w e]
  show ?thesis
    by (cases "MutNode_Open H cfg n now ctx (fuse_open_flags flags) w")
       (auto simp: errno_of_def split: sum.splits)
next
  case (ReqCreate name flags mode)
  with assms show ?thesis by simp
qed

lemma attempts_refused:
  assumes "destructive (deliver req)"
    and "fst (deny H cfg n t0 ctx (deny_name (deliver req)) w) = Inr EACCES"
    and "\<forall>t\<in>set ts. t0 \<le> t"
    and "backing w' = backing w"
  shows "set (fst (attempts H cfg n ctx (deliver req) ts w')) \<subseteq> {Inr EACCES} \<and>
         length (fst (attempts H cfg n ctx (deliver req) ts w')) = length ts \<and>
         backing (snd (attempts H cfg n ctx (deliver req) ts w')) = backing w"
  using assms(3,4)
proof (induction ts arbitrary: w')
  case Nil
  then show ?case by simp
next
  case (Cons t ts)
  from Cons.prems have later: "t0 \<le> t" and rest: "\<forall>t\<in>set ts. t0 \<le> t"
    by simp_all
  from deny_later [OF assms(2) later] deny_verdict_backing [OF Cons.prems(2)]
  have verdict: "fst (deny H cfg n t ctx (deny_name (deliver req)) w') = Inr EACCES"
    by simp
  have "EACCES \<noteq> OK"
    by (simp add: EACCES_def OK_def)
  from handle_refused [OF assms(1) verdict this] Cons.prems(2)
  have step: "fst (handle H cfg n t ctx (deliver req) w') = Inr EACCES"
    and same: "backing (snd (handle H cfg n t ctx (deliver req) w')) = backing w"
    by simp_all
  from Cons.IH [OF rest same] step show ?case
    by (cases "handle H cfg n t ctx (deliver req) w'";
        cases "attempts H cfg n ctx (deliver req) ts (snd (handle H cfg n t ctx (deliver req) w'))")
       simp
qed

text \<open>
  C4. For every destructive request as it reaches the handlers (unlink, rmdir, rename,
  setattr, setxattr, removexattr, or an open with a write-intent flag): when \<open>deny\<close> refuses
  with \<open>EACCES\<close> at time \<open>t0\<close>, the caller gets \<open>EACCES\<close> and the backing store is the one
  before the request; and trying the request again at any later times \<open>ts\<close>, however
  many, gives \<open>EACCES\<close> each time and leaves the backing store the same.
\<close>

theorem refused_operation_leaves_backing_store:
  assumes "destructive (deliver req)"
    and "fst (deny H cfg n t0 ctx (deny_name (deliver req)) w) = Inr EACCES"
    and "\<forall>t\<in>set ts. t0 \<le> t"
  shows "fst (handle H cfg n t0 ctx (deliver req) w) = Inr EACCES \<and>
         backing (snd (handle H cfg n t0 ctx (deliver req) w)) = backing w \<and>
         set (fst (attempts H cfg n ctx (deliver req) ts w)) \<subseteq> {Inr EACCES} \<and>
         length (fst (attempts H cfg n ctx (deliver req) ts w)) = length ts \<and>
         backing (snd (attempts H cfg n ctx (deliver req) ts w)) = backing w"
proof -
  have "EACCES \<noteq> OK"
    by (simp add: EACCES_def OK_def)
  from handle_refused [OF assms(1,2) this] attempts_refused [OF assms refl]
  show ?thesis by blast
qed

text \<open>
  \<open>open(2)\<close> with \<open>O_CREAT|O_WRONLY|O_TRUNC\<close> on \<open>/b/d/a\<close>, grace 0, tried three times: three
  times \<open>EACCES\<close>, and the file still holds \<open>1\<close>.
\<close>

theorem refused_operation_leaves_backing_store_witness:
  "destructive (deliver (ReqOpen (O_CREAT OR O_WRONLY OR O_TRUNC))) \<and>
   fst (deny store_Host \<lparr>Log = False, Grace = 0\<rparr> file_node (100 * Second) None
          (deny_name (deliver (ReqOpen (O_CREAT OR O_WRONLY OR O_TRUNC)))) sample_world)
     = Inr EACCES \<and>
   100 * Second \<le> 100 * Second \<and> 100 * Second \<le> 101 * Second \<and>
   100 * Second \<le> 160 * Second \<and>
   fst (attempts store_Host \<lparr>Log = False, Grace = 0\<rparr> file_node None
          (deliver (ReqOpen (O_CREAT OR O_WRONLY OR O_TRUNC)))
          [100 * Second, 101 * Second, 160 * Second] sample_world)
     = [Inr EACCES, Inr EACCES, Inr EACCES] \<and>
   backing (snd (attempts store_Host \<lparr>Log = False, Grace = 0\<rparr> file_node None
          (deliver (ReqOpen (O_CREAT OR O_WRONLY OR O_TRUNC)))
          [100 * Second, 101 * Second, 160 * Second] sample_world)) = backing sample_world \<and>
   map_option content (map_of (files (backing sample_world)) ''/b/d/a'') = Some ''1''"
proof -
  have d: "destructive (deliver (ReqOpen (O_CREAT OR O_WRONLY OR O_TRUNC)))"
    by code_simp
  have v: "fst (deny store_Host \<lparr>Log = False, Grace = 0\<rparr> file_node (100 * Second) None
          (deny_name (deliver (ReqOpen (O_CREAT OR O_WRONLY OR O_TRUNC)))) sample_world)
     = Inr EACCES"
    by code_simp
  have l: "\<forall>t\<in>set [100 * Second, 101 * Second, 160 * Second]. 100 * Second \<le> t"
    by (simp add: Second_def)
  have c: "map_option content (map_of (files (backing sample_world)) ''/b/d/a'') = Some ''1''"
    by code_simp
  let ?rs = "fst (attempts store_Host \<lparr>Log = False, Grace = 0\<rparr> file_node None
          (deliver (ReqOpen (O_CREAT OR O_WRONLY OR O_TRUNC)))
          [100 * Second, 101 * Second, 160 * Second] sample_world)"
  from refused_operation_leaves_backing_store [OF d v l]
  have sub: "set ?rs \<subseteq> {Inr EACCES}" and len: "length ?rs = 3"
    and same: "backing (snd (attempts store_Host \<lparr>Log = False, Grace = 0\<rparr> file_node None
          (deliver (ReqOpen (O_CREAT OR O_WRONLY OR O_TRUNC)))
          [100 * Second, 101 * Second, 160 * Second] sample_world)) = backing sample_world"
    by simp_all
  from len obtain a b c' where abc: "?rs = [a, b, c']"
    by (cases ?rs; cases "tl ?rs"; cases "tl (tl ?rs)") auto
  with sub have "?rs = [Inr EACCES, Inr EACCES, Inr EACCES]"
    by simp
  moreover have "100 * Second \<le> 100 * Second \<and> 100 * Second \<le> 101 * Second \<and>
      100 * Second \<le> 160 * Second"
    by (simp add: Second_def)
  ultimately show ?thesis using d v same c by blast
qed

subsection \<open>Whose creation time\<close>

text \<open>A refusal of \<open>Rename\<close> is the same for every entry of the directory.\<close>

lemma rename_refusal_ignores_name:
  "fst (deny H cfg n now ctx [] w) = Inr e \<Longrightarrow> e \<noteq> OK \<Longrightarrow>
   MutNode_Rename H cfg n now ctx name newParent newName flags w
     = MutNode_Rename H cfg n now ctx name' newParent newName flags w"
  by (cases "deny H cfg n now ctx [] w") (simp add: MutNode_Rename_def)

text \<open>
  C6. \<open>Rename\<close> passes the empty name to \<open>deny\<close>, so the lookup is made on the directory
  that holds the entry, where \<open>Unlink\<close> passes the name of the entry. With a grace of 5s,
  at second 100: in the sample world the entry \<open>a\<close> is one second old and its directory
  old, \<open>Unlink\<close> is allowed and \<open>Rename\<close> is refused; with a fresh directory and an old
  entry \<open>Unlink\<close> is refused and \<open>Rename\<close> goes through and moves the entry.
\<close>

theorem rename_consults_parent_directory:
  "btime (Statx store_Host (backing sample_world)) (actual_path dir_node ''a'') = Inr (99 * Second) \<and>
   fst (MutNode_Unlink store_Host \<lparr>Log = False, Grace = 5 * Second\<rparr> dir_node (100 * Second) None
          ''a'' sample_world) = Inr OK \<and>
   MutNode_Rename store_Host \<lparr>Log = False, Grace = 5 * Second\<rparr> dir_node (100 * Second) None
          ''a'' dir_node ''c'' 0 sample_world = (Inr EACCES, sample_world) \<and>
   btime (Statx store_Host (backing fresh_dir_world)) (actual_path dir_node ''a'') = Inr 0 \<and>
   fst (MutNode_Unlink store_Host \<lparr>Log = False, Grace = 5 * Second\<rparr> dir_node (100 * Second) None
          ''a'' fresh_dir_world) = Inr EACCES \<and>
   fst (MutNode_Rename store_Host \<lparr>Log = False, Grace = 5 * Second\<rparr> dir_node (100 * Second) None
          ''a'' dir_node ''c'' 0 fresh_dir_world) = Inr OK \<and>
   map_of (files (backing (snd (MutNode_Rename store_Host \<lparr>Log = False, Grace = 5 * Second\<rparr>
          dir_node (100 * Second) None ''a'' dir_node ''c'' 0 fresh_dir_world)))) ''/b/d/a'' = None"
  by code_simp

subsection \<open>The creation-time lookup\<close>

text \<open>
  C8, amended. \<open>btime\<close> reports the error of \<open>statx\<close> when the call fails; when the call
  succeeds it returns the time built from the field \<open>Btime\<close> of the result, whether or not
  the mask says that the host filled the field in; and it reads no other field: the mask
  and the access, change and modification times can be replaced without changing what
  \<open>btime\<close> returns.
\<close>

theorem btime_of_statx:
  "(statx name = Inl err \<longrightarrow> btime statx name = Inl err) \<and>
   (statx name = Inr st \<longrightarrow>
      btime statx name = Inr (time_Unix (sint (Sec (Btime st))) (uint (Nsec (Btime st))))) \<and>
   btime (\<lambda>p. map_sum id (\<lambda>s. s\<lparr>Mask := m, Atime := a, Ctime := c, Mtime := mt\<rparr>) (statx p)) name
     = btime statx name"
  by (cases "statx name") (simp_all add: btime_def)

text \<open>In the sample world: a path that is missing, and the entry born at second 99.\<close>

theorem btime_of_statx_witness:
  "store_Statx (backing sample_world) ''/b/d/zz'' = Inl ENOENT \<and>
   btime (store_Statx (backing sample_world)) ''/b/d/zz'' = Inl ENOENT \<and>
   store_Statx (backing sample_world) ''/b/d/a''
     = Inr \<lparr>Mask = 0xfff, Atime = stamp (99 * Second), Btime = stamp (99 * Second),
            Ctime = stamp (99 * Second), Mtime = stamp (99 * Second)\<rparr> \<and>
   btime (store_Statx (backing sample_world)) ''/b/d/a'' = Inr (99 * Second)"
proof -
  have missing: "store_Statx (backing sample_world) ''/b/d/zz'' = Inl ENOENT"
    by code_simp
  have there: "store_Statx (backing sample_world) ''/b/d/a''
     = Inr \<lparr>Mask = 0xfff, Atime = stamp (99 * Second), Btime = stamp (99 * Second),
            Ctime = stamp (99 * Second), Mtime = stamp (99 * Second)\<rparr>"
    by code_simp
  have unix: "time_Unix (sint (Sec (stamp (99 * Second)))) (uint (Nsec (stamp (99 * Second))))
     = 99 * Second"
    by code_simp
  from btime_of_statx [of "store_Statx (backing sample_world)" "''/b/d/zz''" ENOENT] missing
  have a: "btime (store_Statx (backing sample_world)) ''/b/d/zz'' = Inl ENOENT"
    by blast
  from btime_of_statx [of "store_Statx (backing sample_world)" "''/b/d/a''" _
         "\<lparr>Mask = 0xfff, Atime = stamp (99 * Second), Btime = stamp (99 * Second),
            Ctime = stamp (99 * Second), Mtime = stamp (99 * Second)\<rparr>"] there unix
  have b: "btime (store_Statx (backing sample_world)) ''/b/d/a'' = Inr (99 * Second)"
    by simp
  from missing a there b show ?thesis by blast
qed

text \<open>
  Against C8 as stated. On a host that reports no birth time the lookup is not
  unavailable: \<open>btime\<close> succeeds and returns the Unix epoch.
\<close>

theorem btime_without_birth_time:
  "\<not> reports_btime no_btime_statx \<and>
   btime (\<lambda>p. Inr no_btime_statx) ''/b/d/a'' = Inr (time_Unix 0 0)"
  by code_simp

subsection \<open>Exit statuses of \<open>main\<close>\<close>

lemma check_dirs_two:
  "check_dirs E [a, b] = (if not_a_directory E a \<or> not_a_directory E b then Some 1 else None)"
  by (simp add: not_a_directory_def split: sum.splits)

text \<open>
  C9, amended. With fewer than two path arguments \<open>main\<close> exits with status 2. With two or
  more, when one of the first two is not an existing directory, \<open>main\<close> exits through
  \<open>log.Fatalf\<close>, with status 1.
\<close>

theorem main_argument_errors:
  "(length args < 2 \<longrightarrow> main E flagOpts args = Exit 2) \<and>
   (2 \<le> length args \<and> (not_a_directory E (args ! 0) \<or> not_a_directory E (args ! 1))
      \<longrightarrow> main E flagOpts args = Exit 1)"
  by (auto simp: main_def Let_def check_dirs_two simp del: check_dirs.simps)

text \<open>One argument only; and two arguments of which the second is a file.\<close>

theorem main_argument_errors_witness:
  "length [''/b''] < 2 \<and> main sample_env [''log''] [''/b''] = Exit 2 \<and>
   2 \<le> length [''/b'', ''/b/file''] \<and> not_a_directory sample_env ([''/b'', ''/b/file''] ! 1) \<and>
   main sample_env [''log''] [''/b'', ''/b/file''] = Exit 1"
proof -
  have few: "length [''/b''] < (2::nat)"
    by simp
  have two: "2 \<le> length [''/b'', ''/b/file'']"
    by simp
  have nodir: "not_a_directory sample_env ([''/b'', ''/b/file''] ! 1)"
    by code_simp
  from main_argument_errors [of "[''/b'']" sample_env "[''log'']"] few
  have a: "main sample_env [''log''] [''/b''] = Exit 2"
    by blast
  from main_argument_errors [of "[''/b'', ''/b/file'']" sample_env "[''log'']"] two nodir
  have b: "main sample_env [''log''] [''/b'', ''/b/file''] = Exit 1"
    by blast
  from few a two nodir b show ?thesis by blast
qed

text \<open>
  Against C9 as stated: a mount point that does not exist, and a source that is a file,
  both end in status 1, not 2.
\<close>

theorem main_missing_directory_exits_1:
  "not_a_directory sample_env ''/nodir'' \<and>
   main sample_env [] [''/b'', ''/nodir''] = Exit 1 \<and>
   not_a_directory sample_env ''/b/file'' \<and>
   main sample_env [] [''/b/file'', ''/mnt''] = Exit 1"
  by code_simp

subsection \<open>Creating and overwriting\<close>





subsection \<open>The option \<open>ro\<close>\<close>







end
